theory Spec2Isabelle
  imports Main "HOL-Library.Word" "HOL-Library.Sublist"
begin

section \<open>Typeface resolution (\<^verbatim>\<open>resolve_typeface\<close>, identical in skia_gl.cc and skia_vk.cc)\<close>

text \<open>
  A typeface object is identified by a number; a null \<^verbatim>\<open>sk_sp<SkTypeface>\<close> is \<open>None\<close>.
  A nullable \<^verbatim>\<open>const char*\<close> is a \<open>string option\<close>: \<open>None\<close> is the null pointer and
  \<open>Some s\<close> points at the characters \<open>s\<close> before the terminating NUL.
\<close>

type_synonym SkTypeface = nat

datatype Slant = kUpright_Slant | kItalic_Slant

datatype Width = kNormal_Width

record SkFontStyle =
  fs_weight :: int
  fs_width :: Width
  fs_slant :: Slant

text \<open>The three members of \<^verbatim>\<open>SkFontMgr\<close> that the bridge calls.\<close>

record SkFontMgr =
  matchFamilyStyle :: "string option \<Rightarrow> SkFontStyle \<Rightarrow> SkTypeface option"
  countFamilies :: int
  getFamilyName :: "int \<Rightarrow> string"

text \<open>
  What the platform supplies: the three font-manager factories tried by
  \<^verbatim>\<open>get_font_manager\<close> (each may return null) and the registry lookup
  \<^verbatim>\<open>lookup_custom_typeface\<close>, which lives in skia_common_impl.h and is taken as a
  parameter here.
\<close>

record font_platform =
  SkFontMgr_New_AndroidNDK :: "SkFontMgr option"
  SkFontMgr_New_Android :: "SkFontMgr option"
  SkFontMgr_RefEmpty :: "SkFontMgr option"
  lookup_custom_typeface :: "string option \<Rightarrow> SkTypeface option"

text \<open>Every call that leaves \<^verbatim>\<open>resolve_typeface\<close>, and every log line, in program order.\<close>

datatype font_event =
    Call_New_AndroidNDK
  | Call_New_Android
  | Call_RefEmpty
  | Call_lookup_custom_typeface "string option"
  | Call_matchFamilyStyle "string option" SkFontStyle
  | Call_countFamilies
  | Call_getFamilyName int
  | Log_font_manager_ready int
  | Log_font_manager_init_failed
  | Log_no_typeface_match string int int

text \<open>The function-local \<^verbatim>\<open>struct Cache\<close> with its default member initialisers.\<close>

record Cache =
  c_family :: string
  c_weight :: int
  c_style :: int
  c_typeface :: "SkTypeface option"

definition Cache_default :: Cache where
  "Cache_default = \<lparr>c_family = [], c_weight = - 1, c_style = - 1, c_typeface = None\<rparr>"

text \<open>
  The statics of the translation unit: the \<^verbatim>\<open>once_flag\<close> and \<^verbatim>\<open>manager\<close> of
  \<^verbatim>\<open>get_font_manager\<close> and the \<^verbatim>\<open>cache\<close> of \<^verbatim>\<open>resolve_typeface\<close>.
\<close>

record font_state =
  once :: bool
  manager :: "SkFontMgr option"
  cache :: Cache

definition font_state_initial :: font_state where
  "font_state_initial = \<lparr>once = False, manager = None, cache = Cache_default\<rparr>"

text \<open>\<^verbatim>\<open>std::clamp(v, lo, hi)\<close>.\<close>

definition clamp :: "int \<Rightarrow> int \<Rightarrow> int \<Rightarrow> int" where
  "clamp v lo hi = (if v < lo then lo else if hi < v then hi else v)"

definition get_font_manager ::
  "font_platform \<Rightarrow> font_state \<Rightarrow> SkFontMgr option \<times> font_state \<times> font_event list" where
  "get_font_manager p st =
     (if once st then (manager st, st, [])
      else
        let (m, ev) = (SkFontMgr_New_AndroidNDK p, [Call_New_AndroidNDK]);
            (m, ev) = (case m of
                         None \<Rightarrow> (SkFontMgr_New_Android p, ev @ [Call_New_Android])
                       | Some _ \<Rightarrow> (m, ev));
            (m, ev) = (case m of
                         None \<Rightarrow> (SkFontMgr_RefEmpty p, ev @ [Call_RefEmpty])
                       | Some _ \<Rightarrow> (m, ev));
            ev = (case m of
                    Some mgr \<Rightarrow>
                      ev @ [Call_countFamilies, Log_font_manager_ready (countFamilies mgr)]
                  | None \<Rightarrow> ev @ [Log_font_manager_init_failed])
        in (m, st\<lparr>once := True, manager := m\<rparr>, ev))"

text \<open>
  The local \<^verbatim>\<open>family_name\<close>: the argument when it is neither null nor empty, the
  empty string otherwise.
\<close>

definition family_name_of :: "string option \<Rightarrow> string" where
  "family_name_of family =
     (case family of
        None \<Rightarrow> []
      | Some f \<Rightarrow> if f \<noteq> [] then f else [])"

text \<open>
  The condition of the early return:
  \<^verbatim>\<open>cache.typeface && cache.weight == weight && cache.style == style && cache.family == family_name\<close>.
\<close>

definition cache_hit :: "Cache \<Rightarrow> string \<Rightarrow> int \<Rightarrow> int \<Rightarrow> bool" where
  "cache_hit c family_name weight style =
     (c_typeface c \<noteq> None \<and> c_weight c = weight \<and> c_style c = style
      \<and> c_family c = family_name)"

text \<open>
  The statement \<^verbatim>\<open>if (!typeface && manager) { ... }\<close>, which occurs five times (the
  first time with \<^verbatim>\<open>&& !family_name.empty()\<close> added to the condition): the block runs
  on the manager, and its events are appended, only when no typeface has been found yet
  and the manager is not null. The block yields the value \<^verbatim>\<open>typeface\<close> has after it,
  which is still null when the block assigns nothing.
\<close>

definition if_no_typeface ::
  "SkFontMgr option \<Rightarrow> SkTypeface option \<times> font_event list
     \<Rightarrow> (SkFontMgr \<Rightarrow> SkTypeface option \<times> font_event list)
     \<Rightarrow> SkTypeface option \<times> font_event list" where
  "if_no_typeface mgr acc block =
     (case fst acc of
        Some t \<Rightarrow> acc
      | None \<Rightarrow>
          (case mgr of
             None \<Rightarrow> acc
           | Some m \<Rightarrow> (fst (block m), snd acc @ snd (block m))))"

definition resolve_typeface ::
  "font_platform \<Rightarrow> string option \<Rightarrow> int \<Rightarrow> int \<Rightarrow> font_state
     \<Rightarrow> SkTypeface option \<times> font_state \<times> font_event list" where
  "resolve_typeface p family weight0 style st =
     (let weight = clamp weight0 100 900;
          family_name = family_name_of family
      in
        if cache_hit (cache st) family_name weight style
        then (c_typeface (cache st), st, [])
        else
          let slant = (if style = 1 then kItalic_Slant else kUpright_Slant);
              font_style = \<lparr>fs_weight = weight, fs_width = kNormal_Width, fs_slant = slant\<rparr>;
              got = get_font_manager p st;
              mgr = fst got;
              acc = (lookup_custom_typeface p family,
                     snd (snd got) @ [Call_lookup_custom_typeface family]);
              acc = (if family_name \<noteq> []
                     then if_no_typeface mgr acc
                            (\<lambda>m. (matchFamilyStyle m (Some family_name) font_style,
                                  [Call_matchFamilyStyle (Some family_name) font_style]))
                     else acc);
              acc = if_no_typeface mgr acc
                      (\<lambda>m. (matchFamilyStyle m None font_style,
                            [Call_matchFamilyStyle None font_style]));
              acc = if_no_typeface mgr acc
                      (\<lambda>m. (matchFamilyStyle m (Some ''sans-serif'') font_style,
                            [Call_matchFamilyStyle (Some ''sans-serif'') font_style]));
              acc = if_no_typeface mgr acc
                      (\<lambda>m. let family_count = countFamilies m
                           in if family_count > 0
                              then (let fallback_name = getFamilyName m 0
                                    in (matchFamilyStyle m (Some fallback_name) font_style,
                                        [Call_countFamilies, Call_getFamilyName 0,
                                         Call_matchFamilyStyle (Some fallback_name) font_style]))
                              else (None, [Call_countFamilies]));
              acc = if_no_typeface mgr acc
                      (\<lambda>m. let fallback_style =
                                 \<lparr>fs_weight = 400, fs_width = kNormal_Width, fs_slant = slant\<rparr>
                           in (matchFamilyStyle m (Some ''sans-serif'') fallback_style,
                               [Call_matchFamilyStyle (Some ''sans-serif'') fallback_style]));
              typeface = fst acc;
              ev = (case typeface of
                      None \<Rightarrow> snd acc @ [Log_no_typeface_match family_name weight style]
                    | Some t \<Rightarrow> snd acc)
          in (typeface,
              (fst (snd got))\<lparr>cache := \<lparr>c_family = family_name, c_weight = weight,
                                         c_style = style, c_typeface = typeface\<rparr>\<rparr>,
              ev))"

text \<open>
  The resolution order as the specification words it: an ordered list of lookups, the
  custom registry first, then the font-manager matches, evaluated lazily until one yields
  a typeface.
\<close>

datatype lookup_step =
    Custom_lookup "string option"
  | Manager_match "string option" SkFontStyle

definition resolution_chain ::
  "SkFontMgr \<Rightarrow> string option \<Rightarrow> int \<Rightarrow> Slant \<Rightarrow> lookup_step list" where
  "resolution_chain m family weight slant =
     (let requested = \<lparr>fs_weight = weight, fs_width = kNormal_Width, fs_slant = slant\<rparr>;
          normal = \<lparr>fs_weight = 400, fs_width = kNormal_Width, fs_slant = slant\<rparr>
      in [Custom_lookup family]
         @ (case family of
              None \<Rightarrow> []
            | Some f \<Rightarrow> if f = [] then [] else [Manager_match (Some f) requested])
         @ [Manager_match None requested,
            Manager_match (Some ''sans-serif'') requested]
         @ (if 0 < countFamilies m
            then [Manager_match (Some (getFamilyName m 0)) requested] else [])
         @ [Manager_match (Some ''sans-serif'') normal])"

definition run_step :: "font_platform \<Rightarrow> SkFontMgr \<Rightarrow> lookup_step \<Rightarrow> SkTypeface option" where
  "run_step p m s =
     (case s of
        Custom_lookup family \<Rightarrow> lookup_custom_typeface p family
      | Manager_match name fs \<Rightarrow> matchFamilyStyle m name fs)"

text \<open>The first step that yields a typeface, with the steps attempted on the way.\<close>

fun first_typeface ::
  "(lookup_step \<Rightarrow> SkTypeface option) \<Rightarrow> lookup_step list
     \<Rightarrow> SkTypeface option \<times> lookup_step list" where
  "first_typeface look [] = (None, [])"
| "first_typeface look (s # ss) =
     (case look s of
        Some t \<Rightarrow> (Some t, [s])
      | None \<Rightarrow> (fst (first_typeface look ss), s # snd (first_typeface look ss)))"

text \<open>The lookups of a trace, in order; bookkeeping calls and log lines are dropped.\<close>

fun lookups_of :: "font_event list \<Rightarrow> lookup_step list" where
  "lookups_of [] = []"
| "lookups_of (Call_lookup_custom_typeface family # es) = Custom_lookup family # lookups_of es"
| "lookups_of (Call_matchFamilyStyle name fs # es) = Manager_match name fs # lookups_of es"
| "lookups_of (e # es) = lookups_of es"

text \<open>Whether a trace holds the total-miss warning.\<close>

fun warned :: "font_event list \<Rightarrow> bool" where
  "warned [] = False"
| "warned (Log_no_typeface_match f w s # es) = True"
| "warned (e # es) = warned es"

text \<open>The slant of every style passed to the font manager in a trace, in order.\<close>

fun requested_slants :: "font_event list \<Rightarrow> Slant list" where
  "requested_slants [] = []"
| "requested_slants (Call_matchFamilyStyle name fs # es) = fs_slant fs # requested_slants es"
| "requested_slants (e # es) = requested_slants es"

text \<open>
  The weight of every style passed to the font manager in a trace, in order, and the
  weights of the font-manager steps of a list of lookups.
\<close>

fun requested_weights :: "font_event list \<Rightarrow> int list" where
  "requested_weights [] = []"
| "requested_weights (Call_matchFamilyStyle name fs # es) = fs_weight fs # requested_weights es"
| "requested_weights (e # es) = requested_weights es"

fun step_weights :: "lookup_step list \<Rightarrow> int list" where
  "step_weights [] = []"
| "step_weights (Manager_match name fs # ss) = fs_weight fs # step_weights ss"
| "step_weights (Custom_lookup family # ss) = step_weights ss"

text \<open>
  How many font-manager requests the documented chain makes at the requested weight
  before its last step, the one at weight 400: the requested family unless it is empty,
  no family, ``sans-serif'', and the manager's family 0 when it has one; none without a
  font manager.
\<close>

definition clamped_requests :: "SkFontMgr option \<Rightarrow> string option \<Rightarrow> nat" where
  "clamped_requests mgr family =
     (case mgr of
        None \<Rightarrow> 0
      | Some m \<Rightarrow>
          (if family_name_of family = [] then 0 else 1) + 2
          + (if 0 < countFamilies m then 1 else 0))"

section \<open>Contexts and surfaces (skia_gl.cc, skia_vk.cc)\<close>

text \<open>
  \<^verbatim>\<open>DriftSkiaContext\<close> and \<^verbatim>\<open>DriftSkiaSurface\<close> are \<^verbatim>\<open>void*\<close>: \<open>None\<close> is the null
  pointer, \<open>Some a\<close> the object at address \<open>a\<close>. A C \<^verbatim>\<open>int\<close> is an \<open>int\<close>; no
  arithmetic is done on any of them.
\<close>

type_synonym GrDirectContext = nat
type_synonym SkSurface = nat

datatype GrGLenum = GL_RGBA8_sized | GL_RGBA | GL_BGRA8_EXT | GL_RGB565

datatype gl_pname = GL_FRAMEBUFFER_BINDING | GL_SAMPLES | GL_STENCIL_BITS

datatype gl_name = GL_VERSION | GL_RENDERER

datatype SkColorType =
  kRGBA_8888_SkColorType | kBGRA_8888_SkColorType | kRGB_565_SkColorType

datatype SkAlphaType = kPremul_SkAlphaType

datatype SkColorSpace = MakeSRGB

datatype GrSurfaceOrigin = kTopLeft_GrSurfaceOrigin

datatype SkPixelGeometry = kRGB_H_SkPixelGeometry

datatype Budgeted = Budgeted_kNo

datatype GrSyncCpu = GrSyncCpu_kNo | GrSyncCpu_kYes

datatype VkImageTiling = VK_IMAGE_TILING_OPTIMAL

datatype VkImageLayout = VK_IMAGE_LAYOUT_UNDEFINED

datatype VkImageUsageFlagBits =
    VK_IMAGE_USAGE_COLOR_ATTACHMENT_BIT
  | VK_IMAGE_USAGE_TRANSFER_SRC_BIT
  | VK_IMAGE_USAGE_TRANSFER_DST_BIT

datatype VkQueueFamily = VK_QUEUE_FAMILY_IGNORED

record SkSurfaceProps =
  sp_flags :: nat
  sp_pixelGeometry :: SkPixelGeometry

record GrGLFramebufferInfo =
  fFBOID :: "32 word"
  fFormat :: GrGLenum

record GrVkImageInfo =
  fImage :: nat
  fImageTiling :: VkImageTiling
  fImageLayout :: VkImageLayout
  fVkFormat :: "32 word"
  fImageUsageFlags :: "VkImageUsageFlagBits list"
  fSampleCount :: nat
  fLevelCount :: nat
  fCurrentQueueFamily :: VkQueueFamily

record SkImageInfo =
  ii_width :: int
  ii_height :: int
  ii_colorType :: SkColorType
  ii_alphaType :: SkAlphaType
  ii_colorSpace :: SkColorSpace

datatype GrBackendRenderTarget =
    MakeGL int int int int GrGLFramebufferInfo
  | MakeVk int int GrVkImageInfo

text \<open>
  The macros the preprocessor decides: skia_gl.cc defines \<^verbatim>\<open>GL_RGBA8\<close> as
  \<^verbatim>\<open>GL_RGBA\<close> when the GL headers do not define it, and compiles the BGRA attempts only
  under \<^verbatim>\<open>#ifdef GL_BGRA8_EXT\<close>.
\<close>

record gl_build =
  header_defines_GL_RGBA8 :: bool
  header_defines_GL_BGRA8_EXT :: bool

definition GL_RGBA8 :: "gl_build \<Rightarrow> GrGLenum" where
  "GL_RGBA8 b = (if header_defines_GL_RGBA8 b then GL_RGBA8_sized else GL_RGBA)"

text \<open>The GL driver and the Skia entry points the bridge calls.\<close>

record gpu_platform =
  glGetIntegerv :: "gl_pname \<Rightarrow> int"
  glGetString :: "gl_name \<Rightarrow> string option"
  WrapBackendRenderTarget ::
    "GrDirectContext \<Rightarrow> GrBackendRenderTarget \<Rightarrow> GrSurfaceOrigin \<Rightarrow> SkColorType
       \<Rightarrow> SkColorSpace \<Rightarrow> SkSurfaceProps \<Rightarrow> SkSurface option"
  RenderTarget ::
    "GrDirectContext \<Rightarrow> Budgeted \<Rightarrow> SkImageInfo \<Rightarrow> int \<Rightarrow> GrSurfaceOrigin
       \<Rightarrow> SkSurfaceProps \<Rightarrow> SkSurface option"

text \<open>
  Every GL call, Skia call and log line, in program order. The last argument of
  \<open>Call_flushAndSubmit\<close> is the synchronisation argument the call site passes; \<open>None\<close>
  is a call that passes none.
\<close>

datatype gpu_event =
    Call_glGetIntegerv gl_pname
  | Call_glGetString gl_name
  | Call_WrapBackendRenderTarget GrDirectContext GrBackendRenderTarget GrSurfaceOrigin
      SkColorType SkColorSpace SkSurfaceProps
  | Call_RenderTarget GrDirectContext Budgeted SkImageInfo int GrSurfaceOrigin SkSurfaceProps
  | Call_flushAndSubmit GrDirectContext SkSurface "GrSyncCpu option"
  | Call_resetContext GrDirectContext
  | Call_freeGpuResources GrDirectContext
  | Log_failed_GL_surface int int int string string
  | Log_failed_Vulkan_surface int int "32 word"

definition create_gl_surface ::
  "gpu_platform \<Rightarrow> GrDirectContext \<Rightarrow> int \<Rightarrow> int \<Rightarrow> GrGLenum \<Rightarrow> SkColorType
     \<Rightarrow> int \<Rightarrow> int \<Rightarrow> 32 word \<Rightarrow> SkSurface option \<times> gpu_event list" where
  "create_gl_surface g context width height format color_type samples stencil framebuffer =
     (let fb_info = \<lparr>fFBOID = framebuffer, fFormat = format\<rparr>;
          backend_target = MakeGL width height samples stencil fb_info;
          props = \<lparr>sp_flags = 0, sp_pixelGeometry = kRGB_H_SkPixelGeometry\<rparr>;
          surface = WrapBackendRenderTarget g context backend_target
                      kTopLeft_GrSurfaceOrigin color_type MakeSRGB props;
          ev = [Call_WrapBackendRenderTarget context backend_target
                  kTopLeft_GrSurfaceOrigin color_type MakeSRGB props]
      in case surface of
           None \<Rightarrow> (None, ev)
         | Some s \<Rightarrow> (Some s, ev))"

text \<open>
  The statement \<^verbatim>\<open>surface = create_gl_surface(...);\<close> after the events \<open>ev\<close>, and
  the statement \<^verbatim>\<open>if (!surface) { surface = create_gl_surface(...); }\<close>: there the
  call is made, and its events appended, only when no surface has been obtained yet.
\<close>

definition assign_surface ::
  "gpu_event list \<Rightarrow> SkSurface option \<times> gpu_event list
     \<Rightarrow> SkSurface option \<times> gpu_event list" where
  "assign_surface ev attempt = (fst attempt, ev @ snd attempt)"

definition if_no_surface ::
  "SkSurface option \<times> gpu_event list \<Rightarrow> SkSurface option \<times> gpu_event list
     \<Rightarrow> SkSurface option \<times> gpu_event list" where
  "if_no_surface acc attempt =
     (case fst acc of
        None \<Rightarrow> (fst attempt, snd acc @ snd attempt)
      | Some s \<Rightarrow> acc)"

definition drift_skia_surface_create_gl ::
  "gpu_platform \<Rightarrow> gl_build \<Rightarrow> GrDirectContext option \<Rightarrow> int \<Rightarrow> int
     \<Rightarrow> SkSurface option \<times> gpu_event list" where
  "drift_skia_surface_create_gl g b ctx width height =
     (case ctx of
        None \<Rightarrow> (None, [])
      | Some context \<Rightarrow>
          if width \<le> 0 \<or> height \<le> 0 then (None, [])
          else
            let framebuffer = glGetIntegerv g GL_FRAMEBUFFER_BINDING;
                samples = glGetIntegerv g GL_SAMPLES;
                stencil = glGetIntegerv g GL_STENCIL_BITS;
                ev = [Call_glGetIntegerv GL_FRAMEBUFFER_BINDING, Call_glGetIntegerv GL_SAMPLES,
                      Call_glGetIntegerv GL_STENCIL_BITS];
                acc = assign_surface ev
                        (create_gl_surface g context width height (GL_RGBA8 b)
                           kRGBA_8888_SkColorType samples stencil (of_int framebuffer));
                acc = if_no_surface acc
                        (create_gl_surface g context width height GL_RGBA
                           kRGBA_8888_SkColorType samples stencil (of_int framebuffer));
                acc = (if header_defines_GL_BGRA8_EXT b
                       then if_no_surface acc
                              (create_gl_surface g context width height GL_BGRA8_EXT
                                 kBGRA_8888_SkColorType samples stencil (of_int framebuffer))
                       else acc);
                acc = if_no_surface acc
                        (create_gl_surface g context width height GL_RGB565
                           kRGB_565_SkColorType samples stencil (of_int framebuffer));
                acc = (if fst acc = None \<and> stencil \<noteq> 0
                       then
                         let acc = assign_surface (snd acc)
                                     (create_gl_surface g context width height (GL_RGBA8 b)
                                        kRGBA_8888_SkColorType samples 0 (of_int framebuffer));
                             acc = if_no_surface acc
                                     (create_gl_surface g context width height GL_RGBA
                                        kRGBA_8888_SkColorType samples 0 (of_int framebuffer));
                             acc = (if header_defines_GL_BGRA8_EXT b
                                    then if_no_surface acc
                                           (create_gl_surface g context width height GL_BGRA8_EXT
                                              kBGRA_8888_SkColorType samples 0
                                              (of_int framebuffer))
                                    else acc)
                         in if_no_surface acc
                              (create_gl_surface g context width height GL_RGB565
                                 kRGB_565_SkColorType samples 0 (of_int framebuffer))
                       else acc)
            in case fst acc of
                 None \<Rightarrow>
                   (let version = glGetString g GL_VERSION;
                        renderer = glGetString g GL_RENDERER
                    in (None,
                        snd acc
                        @ [Call_glGetString GL_VERSION, Call_glGetString GL_RENDERER,
                           Log_failed_GL_surface framebuffer samples stencil
                             (case version of Some v \<Rightarrow> v | None \<Rightarrow> ''unknown'')
                             (case renderer of Some r \<Rightarrow> r | None \<Rightarrow> ''unknown'')]))
               | Some surface \<Rightarrow> (Some surface, snd acc))"

definition drift_skia_surface_create_offscreen_gl ::
  "gpu_platform \<Rightarrow> GrDirectContext option \<Rightarrow> int \<Rightarrow> int
     \<Rightarrow> SkSurface option \<times> gpu_event list" where
  "drift_skia_surface_create_offscreen_gl g ctx width height =
     (case ctx of
        None \<Rightarrow> (None, [])
      | Some context \<Rightarrow>
          if width \<le> 0 \<or> height \<le> 0 then (None, [])
          else
            let info = \<lparr>ii_width = width, ii_height = height,
                        ii_colorType = kRGBA_8888_SkColorType,
                        ii_alphaType = kPremul_SkAlphaType, ii_colorSpace = MakeSRGB\<rparr>;
                props = \<lparr>sp_flags = 0, sp_pixelGeometry = kRGB_H_SkPixelGeometry\<rparr>;
                surface = RenderTarget g context Budgeted_kNo info 0
                            kTopLeft_GrSurfaceOrigin props;
                ev = [Call_RenderTarget context Budgeted_kNo info 0
                        kTopLeft_GrSurfaceOrigin props]
            in case surface of
                 None \<Rightarrow> (None, ev)
               | Some s \<Rightarrow> (Some s, ev))"

definition drift_skia_surface_create_offscreen_vulkan ::
  "gpu_platform \<Rightarrow> GrDirectContext option \<Rightarrow> int \<Rightarrow> int
     \<Rightarrow> SkSurface option \<times> gpu_event list" where
  "drift_skia_surface_create_offscreen_vulkan g ctx width height =
     (case ctx of
        None \<Rightarrow> (None, [])
      | Some context \<Rightarrow>
          if width \<le> 0 \<or> height \<le> 0 then (None, [])
          else
            let info = \<lparr>ii_width = width, ii_height = height,
                        ii_colorType = kRGBA_8888_SkColorType,
                        ii_alphaType = kPremul_SkAlphaType, ii_colorSpace = MakeSRGB\<rparr>;
                props = \<lparr>sp_flags = 0, sp_pixelGeometry = kRGB_H_SkPixelGeometry\<rparr>;
                surface = RenderTarget g context Budgeted_kNo info 0
                            kTopLeft_GrSurfaceOrigin props;
                ev = [Call_RenderTarget context Budgeted_kNo info 0
                        kTopLeft_GrSurfaceOrigin props]
            in case surface of
                 None \<Rightarrow> (None, ev)
               | Some s \<Rightarrow> (Some s, ev))"

text \<open>
  \<^verbatim>\<open>vk_image\<close> is a \<^verbatim>\<open>uintptr_t\<close>, null when 0; its bytes are copied into a
  zero-initialised \<^verbatim>\<open>VkImage\<close>, which keeps the value. \<^verbatim>\<open>vk_format\<close> is a
  \<^verbatim>\<open>uint32_t\<close>.
\<close>

definition drift_skia_surface_create_vulkan ::
  "gpu_platform \<Rightarrow> GrDirectContext option \<Rightarrow> int \<Rightarrow> int \<Rightarrow> nat \<Rightarrow> 32 word
     \<Rightarrow> SkSurface option \<times> gpu_event list" where
  "drift_skia_surface_create_vulkan g ctx width height vk_image vk_format =
     (case ctx of
        None \<Rightarrow> (None, [])
      | Some context \<Rightarrow>
          if width \<le> 0 \<or> height \<le> 0 \<or> vk_image = 0 then (None, [])
          else
            let imageInfo =
                  \<lparr>fImage = vk_image,
                   fImageTiling = VK_IMAGE_TILING_OPTIMAL,
                   fImageLayout = VK_IMAGE_LAYOUT_UNDEFINED,
                   fVkFormat = vk_format,
                   fImageUsageFlags = [VK_IMAGE_USAGE_COLOR_ATTACHMENT_BIT,
                                       VK_IMAGE_USAGE_TRANSFER_SRC_BIT,
                                       VK_IMAGE_USAGE_TRANSFER_DST_BIT],
                   fSampleCount = 1,
                   fLevelCount = 1,
                   fCurrentQueueFamily = VK_QUEUE_FAMILY_IGNORED\<rparr>;
                backend_target = MakeVk width height imageInfo;
                props = \<lparr>sp_flags = 0, sp_pixelGeometry = kRGB_H_SkPixelGeometry\<rparr>;
                surface = WrapBackendRenderTarget g context backend_target
                            kTopLeft_GrSurfaceOrigin kRGBA_8888_SkColorType MakeSRGB props;
                ev = [Call_WrapBackendRenderTarget context backend_target
                        kTopLeft_GrSurfaceOrigin kRGBA_8888_SkColorType MakeSRGB props]
            in case surface of
                 None \<Rightarrow> (None, ev @ [Log_failed_Vulkan_surface width height vk_format])
               | Some s \<Rightarrow> (Some s, ev))"

text \<open>
  \<^verbatim>\<open>drift_skia_surface_flush\<close> and \<^verbatim>\<open>drift_skia_context_purge_resources\<close> exist once
  in each file; the suffix names the file.
\<close>

definition drift_skia_surface_flush_gl ::
  "GrDirectContext option \<Rightarrow> SkSurface option \<Rightarrow> gpu_event list" where
  "drift_skia_surface_flush_gl ctx surface =
     (case (ctx, surface) of
        (Some context, Some sk_surface) \<Rightarrow> [Call_flushAndSubmit context sk_surface None]
      | _ \<Rightarrow> [])"

definition drift_skia_surface_flush_vk ::
  "GrDirectContext option \<Rightarrow> SkSurface option \<Rightarrow> gpu_event list" where
  "drift_skia_surface_flush_vk ctx surface =
     (case (ctx, surface) of
        (Some context, Some sk_surface) \<Rightarrow>
          [Call_flushAndSubmit context sk_surface (Some GrSyncCpu_kYes)]
      | _ \<Rightarrow> [])"

definition drift_skia_context_purge_resources_gl ::
  "GrDirectContext option \<Rightarrow> gpu_event list" where
  "drift_skia_context_purge_resources_gl ctx =
     (case ctx of
        None \<Rightarrow> []
      | Some context \<Rightarrow> [Call_resetContext context, Call_freeGpuResources context])"

definition drift_skia_context_purge_resources_vk ::
  "GrDirectContext option \<Rightarrow> gpu_event list" where
  "drift_skia_context_purge_resources_vk ctx =
     (case ctx of
        None \<Rightarrow> []
      | Some context \<Rightarrow> [Call_freeGpuResources context])"

section \<open>The Vulkan proc-address resolver (\<^verbatim>\<open>getProc\<close> in skia_vk.cc)\<close>

text \<open>
  Vulkan handles are numbers, \<^verbatim>\<open>VK_NULL_HANDLE\<close> being 0. A function pointer is
  \<open>None\<close> when null. The lambda captures \<^verbatim>\<open>vkGetInstanceProc\<close> (checked non-null
  before), \<^verbatim>\<open>vkGetDeviceProc\<close> (what the instance-level resolver returned for
  ``vkGetDeviceProcAddr'', possibly null) and \<^verbatim>\<open>vkInstance\<close>; they are the first three
  arguments here.
\<close>

type_synonym VkInstance = nat
type_synonym VkDevice = nat
type_synonym PFN_vkVoidFunction = "nat option"

definition VK_NULL_HANDLE :: nat where
  "VK_NULL_HANDLE = 0"

definition getProc ::
  "(VkInstance \<Rightarrow> string \<Rightarrow> PFN_vkVoidFunction)
     \<Rightarrow> (VkDevice \<Rightarrow> string \<Rightarrow> PFN_vkVoidFunction) option
     \<Rightarrow> VkInstance
     \<Rightarrow> string \<Rightarrow> VkInstance \<Rightarrow> VkDevice \<Rightarrow> PFN_vkVoidFunction" where
  "getProc vkGetInstanceProc vkGetDeviceProc vkInstance name inst dev =
     (let fn = (case vkGetDeviceProc of
                  Some device_proc \<Rightarrow>
                    if dev \<noteq> VK_NULL_HANDLE then device_proc dev name else None
                | None \<Rightarrow> None)
      in case fn of
           Some f \<Rightarrow> Some f
         | None \<Rightarrow>
             (let resolveInst =
                    (if inst = VK_NULL_HANDLE \<and> dev \<noteq> VK_NULL_HANDLE then vkInstance
                     else inst)
              in vkGetInstanceProc resolveInst name))"

section \<open>The GL fallback order as the specification words it\<close>

text \<open>
  An ordered list of colour formats, each with the colour type it is wrapped as; the
  attempts are the list at the stencil depth read from GL, followed, when that depth is
  not zero, by the list again at stencil 0.
\<close>

definition gl_format_order :: "gl_build \<Rightarrow> (GrGLenum \<times> SkColorType) list" where
  "gl_format_order b =
     [(GL_RGBA8 b, kRGBA_8888_SkColorType), (GL_RGBA, kRGBA_8888_SkColorType)]
     @ (if header_defines_GL_BGRA8_EXT b then [(GL_BGRA8_EXT, kBGRA_8888_SkColorType)] else [])
     @ [(GL_RGB565, kRGB_565_SkColorType)]"

definition gl_attempts :: "gl_build \<Rightarrow> int \<Rightarrow> (GrGLenum \<times> SkColorType \<times> int) list" where
  "gl_attempts b stencil =
     map (\<lambda>fc. (fst fc, snd fc, stencil)) (gl_format_order b)
     @ (if stencil = 0 then [] else map (\<lambda>fc. (fst fc, snd fc, 0)) (gl_format_order b))"

text \<open>The first attempt that yields a surface, with the events of every attempt made.\<close>

fun first_surface ::
  "('a \<Rightarrow> SkSurface option \<times> gpu_event list) \<Rightarrow> 'a list
     \<Rightarrow> SkSurface option \<times> gpu_event list" where
  "first_surface attempt [] = (None, [])"
| "first_surface attempt (x # xs) =
     (case fst (attempt x) of
        Some s \<Rightarrow> (Some s, snd (attempt x))
      | None \<Rightarrow> (fst (first_surface attempt xs),
                 snd (attempt x) @ snd (first_surface attempt xs)))"

text \<open>
  The render target, colour type and colour space of every wrap call in a trace, in
  order, and the format recorded in a Vulkan render target.
\<close>

fun wrap_calls ::
  "gpu_event list \<Rightarrow> (GrBackendRenderTarget \<times> SkColorType \<times> SkColorSpace) list" where
  "wrap_calls [] = []"
| "wrap_calls (Call_WrapBackendRenderTarget context target origin color_type color_space props
                # es) = (target, color_type, color_space) # wrap_calls es"
| "wrap_calls (e # es) = wrap_calls es"


section \<open>Concrete platforms on which the theorems are exercised\<close>

definition roboto_mgr :: SkFontMgr where
  "roboto_mgr =
     \<lparr>matchFamilyStyle = (\<lambda>name fs. if name = Some ''Roboto'' then Some 7 else None),
      countFamilies = 1,
      getFamilyName = (\<lambda>i. ''Roboto'')\<rparr>"

definition empty_mgr :: SkFontMgr where
  "empty_mgr =
     \<lparr>matchFamilyStyle = (\<lambda>name fs. None), countFamilies = 0, getFamilyName = (\<lambda>i. [])\<rparr>"

definition roboto_platform :: font_platform where
  "roboto_platform =
     \<lparr>SkFontMgr_New_AndroidNDK = Some roboto_mgr,
      SkFontMgr_New_Android = None,
      SkFontMgr_RefEmpty = Some empty_mgr,
      lookup_custom_typeface = (\<lambda>f. if f = Some ''Brand'' then Some 1 else None)\<rparr>"

definition bare_platform :: font_platform where
  "bare_platform =
     \<lparr>SkFontMgr_New_AndroidNDK = None,
      SkFontMgr_New_Android = None,
      SkFontMgr_RefEmpty = Some empty_mgr,
      lookup_custom_typeface = (\<lambda>f. None)\<rparr>"

text \<open>A driver that wraps a GL framebuffer only as RGB565 without stencil.\<close>

definition picky_gpu :: gpu_platform where
  "picky_gpu =
     \<lparr>glGetIntegerv = (\<lambda>pname. case pname of
                          GL_FRAMEBUFFER_BINDING \<Rightarrow> 3
                        | GL_SAMPLES \<Rightarrow> 4
                        | GL_STENCIL_BITS \<Rightarrow> 8),
      glGetString = (\<lambda>name. case name of
                        GL_VERSION \<Rightarrow> Some ''OpenGL ES 3.2''
                      | GL_RENDERER \<Rightarrow> None),
      WrapBackendRenderTarget =
        (\<lambda>context target origin color_type color_space props.
           case target of
             MakeGL w h samples stencil fb \<Rightarrow>
               if fFormat fb = GL_RGB565 \<and> stencil = 0 then Some 42 else None
           | MakeVk w h info \<Rightarrow> if fVkFormat info = 37 then Some 43 else None),
      RenderTarget = (\<lambda>context budgeted info samples origin props. Some 44)\<rparr>"

definition full_build :: gl_build where
  "full_build = \<lparr>header_defines_GL_RGBA8 = True, header_defines_GL_BGRA8_EXT = True\<rparr>"

definition demo_instance_proc :: "VkInstance \<Rightarrow> string \<Rightarrow> PFN_vkVoidFunction" where
  "demo_instance_proc inst name =
     (if name = ''vkCreateInstance'' then Some 100
      else if inst = 0 then None
      else Some (200 + inst))"

definition demo_device_proc :: "VkDevice \<Rightarrow> string \<Rightarrow> PFN_vkVoidFunction" where
  "demo_device_proc dev name = (if name = ''vkQueueSubmit'' then Some (300 + dev) else None)"

section \<open>Properties of typeface resolution\<close>

lemma clamp_idem: "clamp (clamp w 100 900) 100 900 = clamp w 100 900"
  by (simp add: clamp_def)

lemma lookups_of_append: "lookups_of (xs @ ys) = lookups_of xs @ lookups_of ys"
  by (induction xs rule: lookups_of.induct) simp_all

lemma warned_append: "warned (xs @ ys) = (warned xs \<or> warned ys)"
  by (induction xs rule: warned.induct) simp_all

lemma requested_slants_append:
  "requested_slants (xs @ ys) = requested_slants xs @ requested_slants ys"
  by (induction xs rule: requested_slants.induct) simp_all

text \<open>Initialising the font manager performs no lookup, logs no miss and leaves the cache alone.\<close>

lemma get_font_manager_quiet:
  "lookups_of (snd (snd (get_font_manager p st))) = []
   \<and> warned (snd (snd (get_font_manager p st))) = False
   \<and> cache (fst (snd (get_font_manager p st))) = cache st"
  by (simp add: get_font_manager_def Let_def split: option.splits)

lemma get_font_manager_no_slants:
  "requested_slants (snd (snd (get_font_manager p st))) = []"
  by (simp add: get_font_manager_def Let_def split: option.splits)

lemma if_no_typeface_found: "if_no_typeface mgr (Some t, ev) block = (Some t, ev)"
  by (simp add: if_no_typeface_def)

lemma if_no_typeface_run:
  "if_no_typeface (Some m) (None, ev) block = (fst (block m), ev @ snd (block m))"
  by (simp add: if_no_typeface_def)

lemma if_no_typeface_keeps_events:
  "e \<in> set (snd acc) \<Longrightarrow> e \<in> set (snd (if_no_typeface mgr acc block))"
  by (simp add: if_no_typeface_def split: option.splits)

lemma if_no_typeface_slants:
  assumes "set (requested_slants (snd acc)) \<subseteq> S"
      and "\<And>m. set (requested_slants (snd (block m))) \<subseteq> S"
  shows "set (requested_slants (snd (if_no_typeface mgr acc block))) \<subseteq> S"
  using assms by (simp add: if_no_typeface_def requested_slants_append split: option.splits)

lemma resolve_typeface_hit:
  "cache_hit (cache st) (family_name_of family) (clamp weight 100 900) style \<Longrightarrow>
     resolve_typeface p family weight style st = (c_typeface (cache st), st, [])"
  by (simp add: resolve_typeface_def)

lemma resolve_typeface_miss_looks_up:
  "\<not> cache_hit (cache st) (family_name_of family) (clamp weight 100 900) style \<Longrightarrow>
     Call_lookup_custom_typeface family
       \<in> set (snd (snd (resolve_typeface p family weight style st)))"
  by (simp add: resolve_typeface_def Let_def if_no_typeface_keeps_events split: option.splits)

text \<open>Hit or miss, the cache slot afterwards holds the key just asked for and the result.\<close>

lemma resolve_typeface_cache_after:
  "cache (fst (snd (resolve_typeface p family weight style st)))
     = \<lparr>c_family = family_name_of family, c_weight = clamp weight 100 900, c_style = style,
        c_typeface = fst (resolve_typeface p family weight style st)\<rparr>"
  by (simp add: resolve_typeface_def Let_def cache_hit_def)

lemma resolve_typeface_slants:
  "set (requested_slants (snd (snd (resolve_typeface p family weight style st))))
     \<subseteq> {if style = 1 then kItalic_Slant else kUpright_Slant}"
  unfolding resolve_typeface_def Let_def
  apply (simp only: if_distrib [of "\<lambda>x. snd (snd x)"] if_distrib [of requested_slants]
      if_distrib [of set] snd_conv)
  apply (simp add: requested_slants_append get_font_manager_no_slants split: option.splits)
  apply (intro conjI impI allI if_no_typeface_slants)
  apply (simp_all add: requested_slants_append get_font_manager_no_slants)
  done

text \<open>
  A miss with a font manager at hand runs the documented chain: result, lookups made and
  warning are those of its lazy evaluation.
\<close>

lemma resolve_typeface_miss_runs_chain:
  assumes miss: "\<not> cache_hit (cache st) (family_name_of family) (clamp weight 100 900) style"
      and mgr: "fst (get_font_manager p st) = Some m"
  shows "fst (resolve_typeface p family weight style st)
           = fst (first_typeface (run_step p m)
                    (resolution_chain m family (clamp weight 100 900)
                       (if style = 1 then kItalic_Slant else kUpright_Slant)))
         \<and> lookups_of (snd (snd (resolve_typeface p family weight style st)))
           = snd (first_typeface (run_step p m)
                    (resolution_chain m family (clamp weight 100 900)
                       (if style = 1 then kItalic_Slant else kUpright_Slant)))
         \<and> warned (snd (snd (resolve_typeface p family weight style st)))
           = (fst (resolve_typeface p family weight style st) = None)"
proof -
  define sl where "sl = (if style = 1 then kItalic_Slant else kUpright_Slant)"
  define fs where
    "fs = \<lparr>fs_weight = clamp weight 100 900, fs_width = kNormal_Width, fs_slant = sl\<rparr>"
  define fs4 where "fs4 = \<lparr>fs_weight = 400, fs_width = kNormal_Width, fs_slant = sl\<rparr>"
  have sl_eq: "(if style = 1 then kItalic_Slant else kUpright_Slant) = sl"
    by (simp add: sl_def)
  have fs_eq:
    "\<lparr>fs_weight = clamp weight 100 900, fs_width = kNormal_Width, fs_slant = sl\<rparr> = fs"
    "\<lparr>fs_weight = 400, fs_width = kNormal_Width, fs_slant = sl\<rparr> = fs4"
    by (simp_all add: fs_def fs4_def)
  have q: "lookups_of (snd (snd (get_font_manager p st))) = []"
          "warned (snd (snd (get_font_manager p st))) = False"
    using get_font_manager_quiet [of p st] by simp_all
  note defs = resolve_typeface_def mgr q Let_def resolution_chain_def run_step_def
    family_name_of_def lookups_of_append warned_append
    if_no_typeface_found if_no_typeface_run sl_eq fs_eq
  show ?thesis
  proof (cases "lookup_custom_typeface p family")
    case (Some t)
    then show ?thesis
      using miss by (simp add: defs)
  next
    case custom: None
    have rest: ?thesis
      if fam: "family = None \<or> family = Some [] \<or> matchFamilyStyle m family fs = None"
    proof (cases "matchFamilyStyle m None fs")
      case (Some t)
      then show ?thesis
        using miss custom fam by (cases family) (auto simp: defs)
    next
      case any: None
      show ?thesis
      proof (cases "matchFamilyStyle m (Some ''sans-serif'') fs")
        case (Some t)
        then show ?thesis
          using miss custom fam any by (cases family) (auto simp: defs)
      next
        case sans: None
        show ?thesis
        proof (cases "0 < countFamilies m \<and> matchFamilyStyle m (Some (getFamilyName m 0)) fs \<noteq> None")
          case True
          then show ?thesis
            using miss custom fam any sans by (cases family) (auto simp: defs)
        next
          case False
          then show ?thesis
            using miss custom fam any sans
            by (cases family; cases "matchFamilyStyle m (Some ''sans-serif'') fs4")
               (auto simp: defs)
        qed
      qed
    qed
    show ?thesis
    proof (cases family)
      case None
      show ?thesis by (rule rest) (simp add: None)
    next
      case (Some f)
      show ?thesis
      proof (cases "f = [] \<or> matchFamilyStyle m (Some f) fs = None")
        case True
        show ?thesis by (rule rest) (use True Some in auto)
      next
        case False
        then show ?thesis
          using miss custom Some by (auto simp: defs)
      qed
    qed
  qed
qed

lemma requested_weights_lookups: "requested_weights ev = step_weights (lookups_of ev)"
  by (induction ev rule: lookups_of.induct) simp_all

lemma step_weights_append: "step_weights (xs @ ys) = step_weights xs @ step_weights ys"
  by (induction xs rule: step_weights.induct) simp_all

lemma step_weights_prefix: "prefix xs ys \<Longrightarrow> prefix (step_weights xs) (step_weights ys)"
  by (auto simp: prefix_def step_weights_append)

lemma first_typeface_prefix: "prefix (snd (first_typeface look xs)) xs"
  by (induction xs) (simp_all split: option.splits)

lemma first_typeface_exhausted:
  "fst (first_typeface look xs) = None \<Longrightarrow> snd (first_typeface look xs) = xs"
  by (induction xs) (simp_all split: option.splits)

text \<open>The weights of the documented chain: the requested weight, then 400 once.\<close>

lemma resolution_chain_weights:
  "step_weights (resolution_chain m family weight slant)
     = replicate (clamped_requests (Some m) family) weight @ [400]"
  by (cases family)
     (simp_all add: resolution_chain_def clamped_requests_def family_name_of_def
        step_weights_append numeral_2_eq_2 Let_def)

lemma if_no_typeface_no_manager: "if_no_typeface None acc block = acc"
  by (simp add: if_no_typeface_def split: option.splits)

text \<open>Without a font manager a miss looks up the custom registry and nothing else.\<close>

lemma resolve_typeface_miss_no_manager:
  assumes "\<not> cache_hit (cache st) (family_name_of family) (clamp weight 100 900) style"
      and "fst (get_font_manager p st) = None"
  shows "lookups_of (snd (snd (resolve_typeface p family weight style st)))
           = [Custom_lookup family]"
proof -
  have q: "lookups_of (snd (snd (get_font_manager p st))) = []"
    using get_font_manager_quiet [of p st] by simp
  show ?thesis
    using assms
    by (simp add: resolve_typeface_def Let_def if_no_typeface_no_manager lookups_of_append q
          split: option.splits)
qed

text \<open>
  After a miss the font manager has been initialised: asking for it again returns the
  same manager.
\<close>

lemma resolve_typeface_manager_after_miss:
  assumes "\<not> cache_hit (cache st) (family_name_of family) (clamp weight 100 900) style"
  shows "fst (get_font_manager p' (fst (snd (resolve_typeface p family weight style st))))
           = fst (get_font_manager p st)"
proof -
  have "once (fst (snd (get_font_manager p st)))
        \<and> manager (fst (snd (get_font_manager p st))) = fst (get_font_manager p st)"
    by (simp add: get_font_manager_def Let_def split: option.splits)
  then show ?thesis
    using assms by (simp add: resolve_typeface_def Let_def get_font_manager_def)
qed

text \<open>
  Every font-manager request of a resolution is one of the chain's, in the chain's
  order: requests at the clamped weight, then at most one at weight 400.
\<close>

lemma resolve_typeface_weights_prefix:
  "prefix (requested_weights (snd (snd (resolve_typeface p family w style st))))
     (replicate (clamped_requests (fst (get_font_manager p st)) family) (clamp w 100 900)
      @ [400])"
proof (cases "cache_hit (cache st) (family_name_of family) (clamp w 100 900) style")
  case True
  then show ?thesis
    by (simp add: resolve_typeface_hit)
next
  case miss: False
  show ?thesis
  proof (cases "fst (get_font_manager p st)")
    case None
    then show ?thesis
      using resolve_typeface_miss_no_manager [OF miss None]
      by (simp add: requested_weights_lookups)
  next
    case (Some m)
    have "lookups_of (snd (snd (resolve_typeface p family w style st)))
            = snd (first_typeface (run_step p m)
                     (resolution_chain m family (clamp w 100 900)
                        (if style = 1 then kItalic_Slant else kUpright_Slant)))"
      using resolve_typeface_miss_runs_chain [OF miss Some] by blast
    then have "prefix (step_weights (lookups_of (snd (snd (resolve_typeface p family w style st)))))
                 (step_weights (resolution_chain m family (clamp w 100 900)
                    (if style = 1 then kItalic_Slant else kUpright_Slant)))"
      by (simp only: step_weights_prefix [OF first_typeface_prefix])
    then show ?thesis
      by (simp only: requested_weights_lookups resolution_chain_weights Some)
  qed
qed

text \<open>
  C1, as the code has it. Every resolution leaves in the cache slot the key asked for
  (family name, clamped weight, style as given) and the typeface that resulted, present
  or absent. The early return requires the key to be equal and the cached typeface to be
  present. So after a resolution that found a typeface, a resolution with an equal key is
  answered from the slot, with no lookup at all, whatever the platform then is and
  leaving the state as it was. After a resolution that found none, or when the key
  differs, the next resolution is a miss: it looks up the custom registry again, and
  with a font manager at hand it runs the whole chain of lookups again, returns what the
  chain yields and logs the warning when that is nothing.
\<close>

theorem resolve_typeface_repeat:
  fixes p :: font_platform and family :: "string option" and weight style :: int
    and st :: font_state and p' :: font_platform and family' :: "string option"
    and weight' style' :: int and m :: SkFontMgr
  defines "r \<equiv> resolve_typeface p family weight style st"
  defines "r' \<equiv> resolve_typeface p' family' weight' style' (fst (snd r))"
  defines "same_key \<equiv> family_name_of family' = family_name_of family
                        \<and> clamp weight' 100 900 = clamp weight 100 900 \<and> style' = style"
  shows "cache (fst (snd r))
           = \<lparr>c_family = family_name_of family, c_weight = clamp weight 100 900,
              c_style = style, c_typeface = fst r\<rparr>
         \<and> (same_key \<and> fst r \<noteq> None \<longrightarrow> r' = (fst r, fst (snd r), []))
         \<and> (\<not> same_key \<or> fst r = None \<longrightarrow>
              Call_lookup_custom_typeface family' \<in> set (snd (snd r')))
         \<and> ((\<not> same_key \<or> fst r = None)
              \<and> fst (get_font_manager p' (fst (snd r))) = Some m \<longrightarrow>
              fst r' = fst (first_typeface (run_step p' m)
                              (resolution_chain m family' (clamp weight' 100 900)
                                 (if style' = 1 then kItalic_Slant else kUpright_Slant)))
              \<and> lookups_of (snd (snd r'))
                  = snd (first_typeface (run_step p' m)
                           (resolution_chain m family' (clamp weight' 100 900)
                              (if style' = 1 then kItalic_Slant else kUpright_Slant)))
              \<and> warned (snd (snd r')) = (fst r' = None))"
proof -
  have slot: "cache (fst (snd r))
                = \<lparr>c_family = family_name_of family, c_weight = clamp weight 100 900,
                   c_style = style, c_typeface = fst r\<rparr>"
    unfolding r_def by (rule resolve_typeface_cache_after)
  have hit: "r' = (fst r, fst (snd r), [])" if "same_key" and "fst r \<noteq> None"
  proof -
    have "cache_hit (cache (fst (snd r))) (family_name_of family') (clamp weight' 100 900)
            style'"
      using that by (simp add: slot cache_hit_def same_key_def)
    from resolve_typeface_hit [OF this, of p'] show ?thesis
      by (simp add: r'_def slot)
  qed
  have miss: "\<not> cache_hit (cache (fst (snd r))) (family_name_of family')
                   (clamp weight' 100 900) style'"
    if "\<not> same_key \<or> fst r = None"
    using that by (auto simp: slot cache_hit_def same_key_def)
  have again: "Call_lookup_custom_typeface family' \<in> set (snd (snd r'))"
    if "\<not> same_key \<or> fst r = None"
    unfolding r'_def by (rule resolve_typeface_miss_looks_up [OF miss [OF that]])
  have chain:
    "fst r' = fst (first_typeface (run_step p' m)
                     (resolution_chain m family' (clamp weight' 100 900)
                        (if style' = 1 then kItalic_Slant else kUpright_Slant)))
     \<and> lookups_of (snd (snd r'))
         = snd (first_typeface (run_step p' m)
                  (resolution_chain m family' (clamp weight' 100 900)
                     (if style' = 1 then kItalic_Slant else kUpright_Slant)))
     \<and> warned (snd (snd r')) = (fst r' = None)"
    if "\<not> same_key \<or> fst r = None" and "fst (get_font_manager p' (fst (snd r))) = Some m"
    unfolding r'_def by (rule resolve_typeface_miss_runs_chain [OF miss [OF that(1)] that(2)])
  show ?thesis
  proof (intro conjI impI)
    show "cache (fst (snd r))
            = \<lparr>c_family = family_name_of family, c_weight = clamp weight 100 900,
               c_style = style, c_typeface = fst r\<rparr>"
      by (rule slot)
    show "r' = (fst r, fst (snd r), [])" if "same_key \<and> fst r \<noteq> None"
      using that hit by simp
    show "Call_lookup_custom_typeface family' \<in> set (snd (snd r'))"
      if "\<not> same_key \<or> fst r = None"
      using that by (rule again)
    assume h: "(\<not> same_key \<or> fst r = None)
                \<and> fst (get_font_manager p' (fst (snd r))) = Some m"
    from chain [OF conjunct1 [OF h] conjunct2 [OF h]]
    show "fst r' = fst (first_typeface (run_step p' m)
                          (resolution_chain m family' (clamp weight' 100 900)
                             (if style' = 1 then kItalic_Slant else kUpright_Slant)))"
      and "lookups_of (snd (snd r'))
             = snd (first_typeface (run_step p' m)
                      (resolution_chain m family' (clamp weight' 100 900)
                         (if style' = 1 then kItalic_Slant else kUpright_Slant)))"
      and "warned (snd (snd r')) = (fst r' = None)"
      by simp_all
  qed
qed

theorem resolve_typeface_repeat_witness:
  "cache (fst (snd (resolve_typeface bare_platform (Some ''Arial'') 400 0 font_state_initial)))
     = \<lparr>c_family = ''Arial'', c_weight = 400, c_style = 0, c_typeface = None\<rparr>
   \<and> fst (resolve_typeface roboto_platform (Some ''Roboto'') 950 0 font_state_initial) = Some 7
   \<and> fst (resolve_typeface bare_platform (Some ''Roboto'') 900 0
        (fst (snd (resolve_typeface roboto_platform (Some ''Roboto'') 950 0
                     font_state_initial)))) = Some 7
   \<and> snd (snd (resolve_typeface bare_platform (Some ''Roboto'') 900 0
        (fst (snd (resolve_typeface roboto_platform (Some ''Roboto'') 950 0
                     font_state_initial))))) = []
   \<and> fst (resolve_typeface bare_platform (Some ''Arial'') 400 0 font_state_initial) = None
   \<and> fst (get_font_manager bare_platform
        (fst (snd (resolve_typeface bare_platform (Some ''Arial'') 400 0 font_state_initial))))
      = Some empty_mgr
   \<and> lookups_of (snd (snd (resolve_typeface bare_platform (Some ''Arial'') 400 0
        (fst (snd (resolve_typeface bare_platform (Some ''Arial'') 400 0
                     font_state_initial))))))
      = [Custom_lookup (Some ''Arial''),
         Manager_match (Some ''Arial'')
           \<lparr>fs_weight = 400, fs_width = kNormal_Width, fs_slant = kUpright_Slant\<rparr>,
         Manager_match None
           \<lparr>fs_weight = 400, fs_width = kNormal_Width, fs_slant = kUpright_Slant\<rparr>,
         Manager_match (Some ''sans-serif'')
           \<lparr>fs_weight = 400, fs_width = kNormal_Width, fs_slant = kUpright_Slant\<rparr>,
         Manager_match (Some ''sans-serif'')
           \<lparr>fs_weight = 400, fs_width = kNormal_Width, fs_slant = kUpright_Slant\<rparr>]
   \<and> warned (snd (snd (resolve_typeface bare_platform (Some ''Arial'') 400 0
        (fst (snd (resolve_typeface bare_platform (Some ''Arial'') 400 0
                     font_state_initial))))))
   \<and> (1::int) \<noteq> 0
   \<and> Call_lookup_custom_typeface (Some ''Brand'')
       \<in> set (snd (snd (resolve_typeface roboto_platform (Some ''Brand'') 700 1
            (fst (snd (resolve_typeface roboto_platform (Some ''Roboto'') 950 0
                         font_state_initial))))))"
proof -
  have found: "fst (resolve_typeface roboto_platform (Some ''Roboto'') 950 0
                      font_state_initial) = Some 7"
    by code_simp
  have same: "family_name_of (Some ''Roboto'') = family_name_of (Some ''Roboto'')
              \<and> clamp 900 100 900 = clamp 950 100 900 \<and> (0::int) = 0"
    by (simp add: clamp_def)
  have absent: "fst (resolve_typeface bare_platform (Some ''Arial'') 400 0
                       font_state_initial) = None"
    by code_simp
  have first_miss: "\<not> cache_hit (cache font_state_initial) (family_name_of (Some ''Arial''))
                        (clamp 400 100 900) 0"
    by (simp add: cache_hit_def font_state_initial_def Cache_default_def)
  have mgr: "fst (get_font_manager bare_platform
               (fst (snd (resolve_typeface bare_platform (Some ''Arial'') 400 0
                            font_state_initial)))) = Some empty_mgr"
    unfolding resolve_typeface_manager_after_miss [OF first_miss]
    by (simp add: get_font_manager_def bare_platform_def font_state_initial_def)
  have run: "first_typeface (run_step bare_platform empty_mgr)
               (resolution_chain empty_mgr (Some ''Arial'') (clamp 400 100 900)
                  (if (0::int) = 1 then kItalic_Slant else kUpright_Slant))
             = (None,
                [Custom_lookup (Some ''Arial''),
                 Manager_match (Some ''Arial'')
                   \<lparr>fs_weight = 400, fs_width = kNormal_Width, fs_slant = kUpright_Slant\<rparr>,
                 Manager_match None
                   \<lparr>fs_weight = 400, fs_width = kNormal_Width, fs_slant = kUpright_Slant\<rparr>,
                 Manager_match (Some ''sans-serif'')
                   \<lparr>fs_weight = 400, fs_width = kNormal_Width, fs_slant = kUpright_Slant\<rparr>,
                 Manager_match (Some ''sans-serif'')
                   \<lparr>fs_weight = 400, fs_width = kNormal_Width, fs_slant = kUpright_Slant\<rparr>])"
    by code_simp
  have names: "family_name_of (Some ''Arial'') = ''Arial''" "clamp 400 100 900 = 400"
    by (simp_all add: family_name_of_def clamp_def)
  note hit = resolve_typeface_repeat [where p = roboto_platform and family = "Some ''Roboto''" and weight = 950
      and style = 0 and st = font_state_initial and p' = bare_platform
      and family' = "Some ''Roboto''" and weight' = 900 and style' = 0 and m = empty_mgr]
  note retry = resolve_typeface_repeat [where p = bare_platform and family = "Some ''Arial''" and weight = 400
      and style = 0 and st = font_state_initial and p' = bare_platform
      and family' = "Some ''Arial''" and weight' = 400 and style' = 0 and m = empty_mgr]
  note other = resolve_typeface_repeat [where p = roboto_platform and family = "Some ''Roboto''" and weight = 950
      and style = 0 and st = font_state_initial and p' = roboto_platform
      and family' = "Some ''Brand''" and weight' = 700 and style' = 1 and m = empty_mgr]
  have a: "resolve_typeface bare_platform (Some ''Roboto'') 900 0
             (fst (snd (resolve_typeface roboto_platform (Some ''Roboto'') 950 0
                          font_state_initial)))
           = (Some 7,
              fst (snd (resolve_typeface roboto_platform (Some ''Roboto'') 950 0
                          font_state_initial)), [])"
    using hit same found by simp
  have b: "cache (fst (snd (resolve_typeface bare_platform (Some ''Arial'') 400 0
                              font_state_initial)))
             = \<lparr>c_family = ''Arial'', c_weight = 400, c_style = 0, c_typeface = None\<rparr>"
    using retry absent names by simp
  have c: "lookups_of (snd (snd (resolve_typeface bare_platform (Some ''Arial'') 400 0
             (fst (snd (resolve_typeface bare_platform (Some ''Arial'') 400 0
                          font_state_initial))))))
           = snd (first_typeface (run_step bare_platform empty_mgr)
                    (resolution_chain empty_mgr (Some ''Arial'') (clamp 400 100 900)
                       (if (0::int) = 1 then kItalic_Slant else kUpright_Slant)))
           \<and> warned (snd (snd (resolve_typeface bare_platform (Some ''Arial'') 400 0
               (fst (snd (resolve_typeface bare_platform (Some ''Arial'') 400 0
                            font_state_initial))))))
             = (fst (first_typeface (run_step bare_platform empty_mgr)
                    (resolution_chain empty_mgr (Some ''Arial'') (clamp 400 100 900)
                       (if (0::int) = 1 then kItalic_Slant else kUpright_Slant))) = None)"
    using retry absent mgr by metis
  have d: "Call_lookup_custom_typeface (Some ''Brand'')
             \<in> set (snd (snd (resolve_typeface roboto_platform (Some ''Brand'') 700 1
                  (fst (snd (resolve_typeface roboto_platform (Some ''Roboto'') 950 0
                               font_state_initial))))))"
    using other by simp
  show ?thesis
    using a b c d found absent mgr unfolding run by simp
qed

text \<open>
  C1 as stated fails: on a platform where every lookup fails, the second of two
  consecutive resolutions of the same key (``Arial'', 400, upright) is not answered from
  the cache; it runs the whole lookup chain again and logs the miss again.
\<close>

theorem resolve_typeface_failed_lookup_retried:
  "fst (resolve_typeface bare_platform (Some ''Arial'') 400 0 font_state_initial) = None
   \<and> snd (snd (resolve_typeface bare_platform (Some ''Arial'') 400 0
        (fst (snd (resolve_typeface bare_platform (Some ''Arial'') 400 0 font_state_initial)))))
     = [Call_lookup_custom_typeface (Some ''Arial''),
        Call_matchFamilyStyle (Some ''Arial'')
          \<lparr>fs_weight = 400, fs_width = kNormal_Width, fs_slant = kUpright_Slant\<rparr>,
        Call_matchFamilyStyle None
          \<lparr>fs_weight = 400, fs_width = kNormal_Width, fs_slant = kUpright_Slant\<rparr>,
        Call_matchFamilyStyle (Some ''sans-serif'')
          \<lparr>fs_weight = 400, fs_width = kNormal_Width, fs_slant = kUpright_Slant\<rparr>,
        Call_countFamilies,
        Call_matchFamilyStyle (Some ''sans-serif'')
          \<lparr>fs_weight = 400, fs_width = kNormal_Width, fs_slant = kUpright_Slant\<rparr>,
        Log_no_typeface_match ''Arial'' 400 0]"
  by code_simp

text \<open>
  C8: resolution with weight \<open>w\<close> is resolution with \<open>w\<close> clamped into [100, 900], in
  result, state and trace; so 50 resolves as 100 and 950 as 900. The cache key holds the
  clamped weight. The font manager is asked at the clamped weight: the weights of its
  requests, in order, are a number of copies of the clamped weight, at most as many as
  the chain has steps at the requested weight, followed by at most one 400, that of the
  last fallback; on a miss with a font manager the lookups are exactly those of the chain
  at the clamped weight, and when nothing is found every step was asked, the last one at
  400.
\<close>

theorem resolve_typeface_clamps_weight:
  "resolve_typeface p family w style st
     = resolve_typeface p family (clamp w 100 900) style st
   \<and> resolve_typeface p family 50 style st = resolve_typeface p family 100 style st
   \<and> resolve_typeface p family 950 style st = resolve_typeface p family 900 style st
   \<and> c_weight (cache (fst (snd (resolve_typeface p family w style st)))) = clamp w 100 900
   \<and> prefix (requested_weights (snd (snd (resolve_typeface p family w style st))))
        (replicate (clamped_requests (fst (get_font_manager p st)) family) (clamp w 100 900)
         @ [400])
   \<and> (\<not> cache_hit (cache st) (family_name_of family) (clamp w 100 900) style
        \<and> fst (get_font_manager p st) = Some m \<longrightarrow>
        lookups_of (snd (snd (resolve_typeface p family w style st)))
          = snd (first_typeface (run_step p m)
                   (resolution_chain m family (clamp w 100 900)
                      (if style = 1 then kItalic_Slant else kUpright_Slant)))
        \<and> (fst (resolve_typeface p family w style st) = None \<longrightarrow>
             requested_weights (snd (snd (resolve_typeface p family w style st)))
               = replicate (clamped_requests (Some m) family) (clamp w 100 900) @ [400]))"
proof -
  have eq: "resolve_typeface p family v style st
              = resolve_typeface p family (clamp v 100 900) style st" for v
    unfolding resolve_typeface_def clamp_idem ..
  have lo: "clamp 50 100 900 = clamp 100 100 900"
    and hi: "clamp 950 100 900 = clamp 900 100 900"
    by (simp_all add: clamp_def)
  have "resolve_typeface p family 50 style st = resolve_typeface p family 100 style st"
    by (subst eq [of 50], subst eq [of 100]) (simp only: lo)
  moreover
  have "resolve_typeface p family 950 style st = resolve_typeface p family 900 style st"
    by (subst eq [of 950], subst eq [of 900]) (simp only: hi)
  moreover
  have "c_weight (cache (fst (snd (resolve_typeface p family w style st)))) = clamp w 100 900"
    by (simp add: resolve_typeface_cache_after)
  moreover
  note resolve_typeface_weights_prefix [of p family w style st]
  moreover
  have "lookups_of (snd (snd (resolve_typeface p family w style st)))
          = snd (first_typeface (run_step p m)
                   (resolution_chain m family (clamp w 100 900)
                      (if style = 1 then kItalic_Slant else kUpright_Slant)))
        \<and> (fst (resolve_typeface p family w style st) = None \<longrightarrow>
             requested_weights (snd (snd (resolve_typeface p family w style st)))
               = replicate (clamped_requests (Some m) family) (clamp w 100 900) @ [400])"
    if miss: "\<not> cache_hit (cache st) (family_name_of family) (clamp w 100 900) style"
      and mgr: "fst (get_font_manager p st) = Some m"
  proof -
    let ?run = "first_typeface (run_step p m)
                  (resolution_chain m family (clamp w 100 900)
                     (if style = 1 then kItalic_Slant else kUpright_Slant))"
    have res: "fst (resolve_typeface p family w style st) = fst ?run"
      and looks: "lookups_of (snd (snd (resolve_typeface p family w style st))) = snd ?run"
      using resolve_typeface_miss_runs_chain [OF miss mgr] by simp_all
    have "requested_weights (snd (snd (resolve_typeface p family w style st)))
            = replicate (clamped_requests (Some m) family) (clamp w 100 900) @ [400]"
      if "fst (resolve_typeface p family w style st) = None"
    proof -
      from that res have "fst ?run = None" by simp
      then have "snd ?run = resolution_chain m family (clamp w 100 900)
                               (if style = 1 then kItalic_Slant else kUpright_Slant)"
        by (rule first_typeface_exhausted)
      then show ?thesis
        by (simp only: requested_weights_lookups looks resolution_chain_weights)
    qed
    with looks show ?thesis by simp
  qed
  ultimately show ?thesis
    using eq [of w] by blast
qed

theorem resolve_typeface_clamps_weight_witness:
  "resolve_typeface roboto_platform (Some ''Roboto'') 50 0 font_state_initial
     = resolve_typeface roboto_platform (Some ''Roboto'') 100 0 font_state_initial
   \<and> c_weight (cache (fst (snd (resolve_typeface roboto_platform (Some ''Roboto'') 950 0
                                  font_state_initial)))) = 900
   \<and> requested_weights (snd (snd (resolve_typeface roboto_platform (Some ''Roboto'') 950 0
                                     font_state_initial))) = [900]
   \<and> \<not> cache_hit (cache font_state_initial) (family_name_of (Some ''Arial''))
         (clamp 50 100 900) 0
   \<and> fst (get_font_manager bare_platform font_state_initial) = Some empty_mgr
   \<and> fst (resolve_typeface bare_platform (Some ''Arial'') 50 0 font_state_initial) = None
   \<and> requested_weights (snd (snd (resolve_typeface bare_platform (Some ''Arial'') 50 0
                                     font_state_initial))) = [100, 100, 100, 400]"
proof -
  have h: "clamp 950 100 900 = 900" "clamp 50 100 900 = 100"
    by (simp_all add: clamp_def)
  have one: "requested_weights (snd (snd (resolve_typeface roboto_platform (Some ''Roboto'')
                950 0 font_state_initial))) = [900]"
    by code_simp
  have miss: "\<not> cache_hit (cache font_state_initial) (family_name_of (Some ''Arial''))
                  (clamp 50 100 900) 0"
    by (simp add: cache_hit_def font_state_initial_def Cache_default_def)
  have mgr: "fst (get_font_manager bare_platform font_state_initial) = Some empty_mgr"
    by (simp add: get_font_manager_def bare_platform_def font_state_initial_def)
  have absent: "fst (resolve_typeface bare_platform (Some ''Arial'') 50 0 font_state_initial)
                  = None"
    by code_simp
  have k: "replicate (clamped_requests (Some empty_mgr) (Some ''Arial'')) (100::int) @ [400]
             = [100, 100, 100, 400]"
    by (simp add: clamped_requests_def family_name_of_def empty_mgr_def numeral_3_eq_3)
  note a = resolve_typeface_clamps_weight [of roboto_platform "Some ''Roboto''" 950 0
      font_state_initial empty_mgr]
  note b = resolve_typeface_clamps_weight [of bare_platform "Some ''Arial''" 50 0
      font_state_initial empty_mgr]
  have a': "resolve_typeface roboto_platform (Some ''Roboto'') 50 0 font_state_initial
              = resolve_typeface roboto_platform (Some ''Roboto'') 100 0 font_state_initial"
    and a'': "c_weight (cache (fst (snd (resolve_typeface roboto_platform (Some ''Roboto'')
                950 0 font_state_initial)))) = 900"
    using a unfolding h by blast+
  have b': "requested_weights (snd (snd (resolve_typeface bare_platform (Some ''Arial'') 50 0
              font_state_initial))) = [100, 100, 100, 400]"
    using b miss mgr absent unfolding h k by blast
  show ?thesis
    using a' a'' b' one miss mgr absent by blast
qed

text \<open>
  C10: the font manager is asked for the italic slant exactly when the style argument
  is 1, and for the upright slant at every other value; the cache key stores the style
  argument as given; so a resolution with any other style value than the one cached is a
  miss and looks up again, even when both values mean upright.
\<close>

theorem resolve_typeface_style:
  "set (requested_slants (snd (snd (resolve_typeface p family weight style st))))
     \<subseteq> {if style = 1 then kItalic_Slant else kUpright_Slant}
   \<and> c_style (cache (fst (snd (resolve_typeface p family weight style st)))) = style
   \<and> (style' \<noteq> style \<longrightarrow>
        Call_lookup_custom_typeface family'
          \<in> set (snd (snd (resolve_typeface p' family' weight' style'
                              (fst (snd (resolve_typeface p family weight style st)))))))"
proof (intro conjI impI)
  show "set (requested_slants (snd (snd (resolve_typeface p family weight style st))))
          \<subseteq> {if style = 1 then kItalic_Slant else kUpright_Slant}"
    by (rule resolve_typeface_slants)
  show "c_style (cache (fst (snd (resolve_typeface p family weight style st)))) = style"
    by (simp add: resolve_typeface_cache_after)
  assume "style' \<noteq> style"
  then have "\<not> cache_hit (cache (fst (snd (resolve_typeface p family weight style st))))
                 (family_name_of family') (clamp weight' 100 900) style'"
    by (simp add: resolve_typeface_cache_after cache_hit_def)
  from resolve_typeface_miss_looks_up [OF this]
  show "Call_lookup_custom_typeface family'
          \<in> set (snd (snd (resolve_typeface p' family' weight' style'
                              (fst (snd (resolve_typeface p family weight style st))))))" .
qed

theorem resolve_typeface_style_witness:
  "requested_slants (snd (snd (resolve_typeface roboto_platform (Some ''Roboto'') 400 0
      font_state_initial))) = [kUpright_Slant]
   \<and> requested_slants (snd (snd (resolve_typeface roboto_platform (Some ''Roboto'') 400 2
      (fst (snd (resolve_typeface roboto_platform (Some ''Roboto'') 400 0
                   font_state_initial)))))) = [kUpright_Slant]
   \<and> requested_slants (snd (snd (resolve_typeface roboto_platform (Some ''Roboto'') 400 1
      font_state_initial))) = [kItalic_Slant]
   \<and> (2::int) \<noteq> 0
   \<and> Call_lookup_custom_typeface (Some ''Roboto'')
       \<in> set (snd (snd (resolve_typeface roboto_platform (Some ''Roboto'') 400 2
            (fst (snd (resolve_typeface roboto_platform (Some ''Roboto'') 400 0
                         font_state_initial))))))"
proof -
  have a: "requested_slants (snd (snd (resolve_typeface roboto_platform (Some ''Roboto'') 400 0
      font_state_initial))) = [kUpright_Slant]"
    by code_simp
  have b: "requested_slants (snd (snd (resolve_typeface roboto_platform (Some ''Roboto'') 400 2
      (fst (snd (resolve_typeface roboto_platform (Some ''Roboto'') 400 0
                   font_state_initial)))))) = [kUpright_Slant]"
    by code_simp
  have c: "requested_slants (snd (snd (resolve_typeface roboto_platform (Some ''Roboto'') 400 1
      font_state_initial))) = [kItalic_Slant]"
    by code_simp
  show ?thesis
    using a b c
      resolve_typeface_style [of roboto_platform "Some ''Roboto''" 400 0 font_state_initial
        2 "Some ''Roboto''" roboto_platform 400]
    by simp
qed

text \<open>
  C4: on a cache miss, with a font manager at hand, the result is the first typeface
  that the documented chain of lookups yields (custom registry; the requested family,
  unless empty; no family; ``sans-serif''; the manager's family 0, when it has one; all
  at the clamped weight and the requested slant; then ``sans-serif'' at weight 400 and
  the same slant), the lookups performed are exactly the steps of the chain up to and
  including the first that succeeds, and the warning is logged exactly when the result is
  absent.
\<close>

theorem resolve_typeface_chain:
  assumes miss: "\<not> cache_hit (cache st) (family_name_of family) (clamp weight 100 900) style"
      and mgr: "fst (get_font_manager p st) = Some m"
  shows "fst (resolve_typeface p family weight style st)
           = fst (first_typeface (run_step p m)
                    (resolution_chain m family (clamp weight 100 900)
                       (if style = 1 then kItalic_Slant else kUpright_Slant)))
         \<and> lookups_of (snd (snd (resolve_typeface p family weight style st)))
           = snd (first_typeface (run_step p m)
                    (resolution_chain m family (clamp weight 100 900)
                       (if style = 1 then kItalic_Slant else kUpright_Slant)))
         \<and> warned (snd (snd (resolve_typeface p family weight style st)))
           = (fst (resolve_typeface p family weight style st) = None)"
  using miss mgr by (rule resolve_typeface_miss_runs_chain)

theorem resolve_typeface_chain_witness:
  "\<not> cache_hit (cache font_state_initial) (family_name_of (Some ''Arial''))
       (clamp 400 100 900) 0
   \<and> fst (get_font_manager roboto_platform font_state_initial) = Some roboto_mgr
   \<and> fst (resolve_typeface roboto_platform (Some ''Arial'') 400 0 font_state_initial) = Some 7
   \<and> lookups_of (snd (snd (resolve_typeface roboto_platform (Some ''Arial'') 400 0
                              font_state_initial)))
     = [Custom_lookup (Some ''Arial''),
        Manager_match (Some ''Arial'')
          \<lparr>fs_weight = 400, fs_width = kNormal_Width, fs_slant = kUpright_Slant\<rparr>,
        Manager_match None
          \<lparr>fs_weight = 400, fs_width = kNormal_Width, fs_slant = kUpright_Slant\<rparr>,
        Manager_match (Some ''sans-serif'')
          \<lparr>fs_weight = 400, fs_width = kNormal_Width, fs_slant = kUpright_Slant\<rparr>,
        Manager_match (Some ''Roboto'')
          \<lparr>fs_weight = 400, fs_width = kNormal_Width, fs_slant = kUpright_Slant\<rparr>]
   \<and> warned (snd (snd (resolve_typeface roboto_platform (Some ''Arial'') 400 0
                          font_state_initial))) = False"
proof -
  have miss: "\<not> cache_hit (cache font_state_initial) (family_name_of (Some ''Arial''))
                  (clamp 400 100 900) 0"
    by (simp add: cache_hit_def font_state_initial_def Cache_default_def)
  have mgr: "fst (get_font_manager roboto_platform font_state_initial) = Some roboto_mgr"
    by (simp add: get_font_manager_def roboto_platform_def font_state_initial_def)
  have run: "first_typeface (run_step roboto_platform roboto_mgr)
               (resolution_chain roboto_mgr (Some ''Arial'') (clamp 400 100 900)
                  (if (0::int) = 1 then kItalic_Slant else kUpright_Slant))
             = (Some 7,
                [Custom_lookup (Some ''Arial''),
                 Manager_match (Some ''Arial'')
                   \<lparr>fs_weight = 400, fs_width = kNormal_Width, fs_slant = kUpright_Slant\<rparr>,
                 Manager_match None
                   \<lparr>fs_weight = 400, fs_width = kNormal_Width, fs_slant = kUpright_Slant\<rparr>,
                 Manager_match (Some ''sans-serif'')
                   \<lparr>fs_weight = 400, fs_width = kNormal_Width, fs_slant = kUpright_Slant\<rparr>,
                 Manager_match (Some ''Roboto'')
                   \<lparr>fs_weight = 400, fs_width = kNormal_Width, fs_slant = kUpright_Slant\<rparr>])"
    by code_simp
  show ?thesis
    using miss mgr resolve_typeface_chain [OF miss mgr] unfolding run by simp
qed

section \<open>Properties of contexts and surfaces\<close>

lemma first_surface_snoc:
  "first_surface f (xs @ [x]) =
     (case fst (first_surface f xs) of
        Some s \<Rightarrow> (Some s, snd (first_surface f xs))
      | None \<Rightarrow> (fst (f x), snd (first_surface f xs) @ snd (f x)))"
  by (induction xs) (auto simp: prod_eq_iff split: option.splits)

lemma first_surface_done:
  "fst (first_surface f xs) = Some s \<Longrightarrow> first_surface f (xs @ ys) = first_surface f xs"
  by (induction xs) (auto split: option.splits)

lemma assign_surface_first:
  "assign_surface ev (f x) = (fst (first_surface f [x]), ev @ snd (first_surface f [x]))"
  by (simp add: assign_surface_def split: option.splits)

lemma if_no_surface_next:
  "if_no_surface (fst (first_surface f xs), ev @ snd (first_surface f xs)) (f x)
     = (fst (first_surface f (xs @ [x])), ev @ snd (first_surface f (xs @ [x])))"
  by (simp add: if_no_surface_def first_surface_snoc split: option.splits)

lemma assign_surface_next:
  "fst (first_surface f xs) = None \<Longrightarrow>
     assign_surface (ev @ snd (first_surface f xs)) (f x)
       = (fst (first_surface f (xs @ [x])), ev @ snd (first_surface f (xs @ [x])))"
  by (simp add: assign_surface_def first_surface_snoc)

text \<open>
  C2: for a non-null context and positive dimensions, after reading framebuffer
  binding, sample count and stencil depth from GL, the function returns what the first
  successful attempt of the ordered list returns (the formats in the order
  \<^verbatim>\<open>GL_RGBA8\<close>, \<^verbatim>\<open>GL_RGBA\<close>, \<^verbatim>\<open>GL_BGRA8_EXT\<close> when compiled in, \<^verbatim>\<open>GL_RGB565\<close>, at the
  stencil depth read, then once more at stencil 0 when the depth read is not 0), making
  no attempt after the first success; when every attempt fails it returns null after
  reading the GL version and renderer strings and logging them with framebuffer id,
  sample count and stencil depth.
\<close>

theorem drift_skia_surface_create_gl_fallback:
  assumes "0 < width" and "0 < height"
  shows "drift_skia_surface_create_gl g b (Some context) width height =
    (let framebuffer = glGetIntegerv g GL_FRAMEBUFFER_BINDING;
         samples = glGetIntegerv g GL_SAMPLES;
         stencil = glGetIntegerv g GL_STENCIL_BITS;
         r = first_surface
               (\<lambda>a. create_gl_surface g context width height (fst a) (fst (snd a)) samples
                      (snd (snd a)) (of_int framebuffer))
               (gl_attempts b stencil)
     in (fst r,
         [Call_glGetIntegerv GL_FRAMEBUFFER_BINDING, Call_glGetIntegerv GL_SAMPLES,
          Call_glGetIntegerv GL_STENCIL_BITS]
         @ snd r
         @ (case fst r of
              Some s \<Rightarrow> []
            | None \<Rightarrow>
                [Call_glGetString GL_VERSION, Call_glGetString GL_RENDERER,
                 Log_failed_GL_surface framebuffer samples stencil
                   (case glGetString g GL_VERSION of Some v \<Rightarrow> v | None \<Rightarrow> ''unknown'')
                   (case glGetString g GL_RENDERER of Some r \<Rightarrow> r | None \<Rightarrow> ''unknown'')])))"
proof -
  define f where
    "f = (\<lambda>a. create_gl_surface g context width height (fst a) (fst (snd a))
                (glGetIntegerv g GL_SAMPLES) (snd (snd a))
                (of_int (glGetIntegerv g GL_FRAMEBUFFER_BINDING)))"
  define st where "st = glGetIntegerv g GL_STENCIL_BITS"
  define ev where
    "ev = [Call_glGetIntegerv GL_FRAMEBUFFER_BINDING, Call_glGetIntegerv GL_SAMPLES,
           Call_glGetIntegerv GL_STENCIL_BITS]"
  define first4 where "first4 = map (\<lambda>fc. (fst fc, snd fc, st)) (gl_format_order b)"
  define retry4 where "retry4 = map (\<lambda>fc. (fst fc, snd fc, 0::int)) (gl_format_order b)"
  define acc_of where
    "acc_of = (\<lambda>xs. (fst (first_surface f xs), ev @ snd (first_surface f xs)))"
  have f_eq: "create_gl_surface g context width height fmt ct (glGetIntegerv g GL_SAMPLES) s
                (of_int (glGetIntegerv g GL_FRAMEBUFFER_BINDING)) = f (fmt, ct, s)" for fmt ct s
    by (simp add: f_def)
  have start: "assign_surface ev (f x) = acc_of [x]" for x
    unfolding acc_of_def by (rule assign_surface_first)
  have step: "if_no_surface (acc_of xs) (f x) = acc_of (xs @ [x])" for xs x
    unfolding acc_of_def by (rule if_no_surface_next)
  have restart: "assign_surface (ev @ snd (first_surface f xs)) (f x) = acc_of (xs @ [x])"
    if "fst (first_surface f xs) = None" for xs x
    unfolding acc_of_def using assign_surface_next [OF that] by simp
  have fst_acc: "fst (acc_of xs) = fst (first_surface f xs)" for xs
    by (simp add: acc_of_def)
  have snd_acc: "snd (acc_of xs) = ev @ snd (first_surface f xs)" for xs
    by (simp add: acc_of_def)
  have body: "drift_skia_surface_create_gl g b (Some context) width height =
    (let acc = acc_of (first4 @ (if st = 0 then [] else retry4))
     in case fst acc of
          None \<Rightarrow>
            (None,
             snd acc
             @ [Call_glGetString GL_VERSION, Call_glGetString GL_RENDERER,
                Log_failed_GL_surface (glGetIntegerv g GL_FRAMEBUFFER_BINDING)
                  (glGetIntegerv g GL_SAMPLES) st
                  (case glGetString g GL_VERSION of Some v \<Rightarrow> v | None \<Rightarrow> ''unknown'')
                  (case glGetString g GL_RENDERER of Some r \<Rightarrow> r | None \<Rightarrow> ''unknown'')])
        | Some surface \<Rightarrow> (Some surface, snd acc))"
  proof (cases "fst (first_surface f first4)")
    case None
    then show ?thesis
      using assms
      by (cases "header_defines_GL_BGRA8_EXT b"; cases "st = 0")
         (simp_all add: drift_skia_surface_create_gl_def Let_def f_eq st_def [symmetric]
            ev_def [symmetric] start step restart fst_acc first4_def retry4_def
            gl_format_order_def snd_acc del: first_surface.simps split: option.splits)
  next
    case (Some s)
    then have "first_surface f (first4 @ (if st = 0 then [] else retry4)) = first_surface f first4"
      by (rule first_surface_done)
    then have "acc_of (first4 @ (if st = 0 then [] else retry4)) = acc_of first4"
      by (simp add: acc_of_def)
    then show ?thesis
      using assms Some
      by (cases "header_defines_GL_BGRA8_EXT b"; cases "st = 0")
         (simp_all add: drift_skia_surface_create_gl_def Let_def f_eq st_def [symmetric]
            ev_def [symmetric] start step fst_acc first4_def
            gl_format_order_def snd_acc del: first_surface.simps split: option.splits)
  qed
  show ?thesis
    unfolding body
    by (simp add: Let_def gl_attempts_def acc_of_def f_def st_def ev_def first4_def retry4_def
          split: option.splits)
qed

theorem drift_skia_surface_create_gl_fallback_witness:
  "(0::int) < 640 \<and> (0::int) < 480
   \<and> fst (drift_skia_surface_create_gl picky_gpu full_build (Some 1) 640 480) = Some 42
   \<and> map (\<lambda>c. (fst c, fst (snd c)))
        (wrap_calls (snd (drift_skia_surface_create_gl picky_gpu full_build (Some 1) 640 480)))
     = [(MakeGL 640 480 4 8 \<lparr>fFBOID = 3, fFormat = GL_RGBA8_sized\<rparr>, kRGBA_8888_SkColorType),
        (MakeGL 640 480 4 8 \<lparr>fFBOID = 3, fFormat = GL_RGBA\<rparr>, kRGBA_8888_SkColorType),
        (MakeGL 640 480 4 8 \<lparr>fFBOID = 3, fFormat = GL_BGRA8_EXT\<rparr>, kBGRA_8888_SkColorType),
        (MakeGL 640 480 4 8 \<lparr>fFBOID = 3, fFormat = GL_RGB565\<rparr>, kRGB_565_SkColorType),
        (MakeGL 640 480 4 0 \<lparr>fFBOID = 3, fFormat = GL_RGBA8_sized\<rparr>, kRGBA_8888_SkColorType),
        (MakeGL 640 480 4 0 \<lparr>fFBOID = 3, fFormat = GL_RGBA\<rparr>, kRGBA_8888_SkColorType),
        (MakeGL 640 480 4 0 \<lparr>fFBOID = 3, fFormat = GL_BGRA8_EXT\<rparr>, kBGRA_8888_SkColorType),
        (MakeGL 640 480 4 0 \<lparr>fFBOID = 3, fFormat = GL_RGB565\<rparr>, kRGB_565_SkColorType)]"
proof -
  have w: "(0::int) < 640" and h: "(0::int) < 480"
    by simp_all
  show ?thesis
    unfolding drift_skia_surface_create_gl_fallback [OF w h, of picky_gpu full_build 1]
    by code_simp
qed

text \<open>
  C3, as the code has it: on a non-null context the GL variant resets the cached
  context state and then frees the GPU resources, the Vulkan variant only frees the GPU
  resources; on a null context both do nothing.
\<close>

theorem purge_resources_per_backend:
  "drift_skia_context_purge_resources_gl (Some context)
     = [Call_resetContext context, Call_freeGpuResources context]
   \<and> drift_skia_context_purge_resources_vk (Some context) = [Call_freeGpuResources context]
   \<and> drift_skia_context_purge_resources_gl None = []
   \<and> drift_skia_context_purge_resources_vk None = []"
  by (simp add: drift_skia_context_purge_resources_gl_def
        drift_skia_context_purge_resources_vk_def)

theorem purge_resources_per_backend_witness:
  "drift_skia_context_purge_resources_gl (Some 7)
     = [Call_resetContext 7, Call_freeGpuResources 7]
   \<and> drift_skia_context_purge_resources_vk (Some 7) = [Call_freeGpuResources 7]"
  using purge_resources_per_backend [of 7] by simp

text \<open>
  C3 as stated fails for the Vulkan variant: on the non-null context 5 it never calls
  \<^verbatim>\<open>resetContext\<close>, while the GL variant does.
\<close>

theorem purge_resources_vk_skips_reset:
  "drift_skia_context_purge_resources_vk (Some 5) = [Call_freeGpuResources 5]
   \<and> Call_resetContext 5 \<notin> set (drift_skia_context_purge_resources_vk (Some 5))
   \<and> Call_resetContext 5 \<in> set (drift_skia_context_purge_resources_gl (Some 5))"
  by (simp add: drift_skia_context_purge_resources_gl_def
        drift_skia_context_purge_resources_vk_def)

text \<open>
  C5: a lookup with a non-null device for which the device-level resolver exists and
  yields a pointer returns that pointer; every other lookup is answered by the
  instance-level resolver, asked with the instance captured at context creation when the
  supplied instance is null and the device is not, and with the supplied instance
  otherwise; so a lookup with both handles null asks with the null instance.
\<close>

theorem getProc_order:
  "(dev \<noteq> VK_NULL_HANDLE \<and> vkGetDeviceProc = Some device_proc
      \<and> device_proc dev name = Some f \<longrightarrow>
      getProc vkGetInstanceProc vkGetDeviceProc vkInstance name inst dev = Some f)
   \<and> (dev = VK_NULL_HANDLE \<or> vkGetDeviceProc = None
        \<or> (vkGetDeviceProc = Some device_proc \<and> device_proc dev name = None) \<longrightarrow>
      getProc vkGetInstanceProc vkGetDeviceProc vkInstance name inst dev
        = vkGetInstanceProc
            (if inst = VK_NULL_HANDLE \<and> dev \<noteq> VK_NULL_HANDLE then vkInstance else inst) name)
   \<and> getProc vkGetInstanceProc vkGetDeviceProc vkInstance name VK_NULL_HANDLE VK_NULL_HANDLE
       = vkGetInstanceProc VK_NULL_HANDLE name"
  by (auto simp: getProc_def split: option.splits)

theorem getProc_order_witness:
  "((5::nat) \<noteq> VK_NULL_HANDLE \<and> demo_device_proc 5 ''vkQueueSubmit'' = Some 305)
   \<and> getProc demo_instance_proc (Some demo_device_proc) 9 ''vkQueueSubmit'' 0 5 = Some 305
   \<and> demo_device_proc 5 ''vkCmdDraw'' = None
   \<and> getProc demo_instance_proc (Some demo_device_proc) 9 ''vkCmdDraw'' 0 5 = Some 209
   \<and> getProc demo_instance_proc (Some demo_device_proc) 9 ''vkCmdDraw'' 4 5 = Some 204
   \<and> getProc demo_instance_proc None 9 ''vkQueueSubmit'' 0 5 = Some 209
   \<and> getProc demo_instance_proc (Some demo_device_proc) 9 ''vkCreateInstance'' 0 0 = Some 100"
proof -
  have a: "(5::nat) \<noteq> VK_NULL_HANDLE \<and> demo_device_proc 5 ''vkQueueSubmit'' = Some 305"
    by (simp add: VK_NULL_HANDLE_def demo_device_proc_def)
  have b: "demo_device_proc 5 ''vkCmdDraw'' = None"
    by (simp add: demo_device_proc_def)
  show ?thesis
    using a b
      getProc_order [of 5 "Some demo_device_proc" demo_device_proc "''vkQueueSubmit''" 305
        demo_instance_proc 9 0]
      getProc_order [of 5 "Some demo_device_proc" demo_device_proc "''vkCmdDraw''" 0
        demo_instance_proc 9 0]
      getProc_order [of 5 "Some demo_device_proc" demo_device_proc "''vkCmdDraw''" 0
        demo_instance_proc 9 4]
      getProc_order [of 5 None demo_device_proc "''vkQueueSubmit''" 0
        demo_instance_proc 9 0]
      getProc_order [of 0 "Some demo_device_proc" demo_device_proc "''vkCreateInstance''" 0
        demo_instance_proc 9 0]
    by (simp add: VK_NULL_HANDLE_def demo_instance_proc_def)
qed

text \<open>
  C6: a null context or a non-positive width or height makes each of the four
  surface-creation functions return null with an empty trace: no GL state is read, no
  Skia call is made, nothing is logged. The Vulkan wrapped variant does the same on a
  null image handle.
\<close>

theorem surface_create_rejects_bad_arguments:
  "(ctx = None \<or> width \<le> 0 \<or> height \<le> 0 \<longrightarrow>
      drift_skia_surface_create_gl g b ctx width height = (None, [])
      \<and> drift_skia_surface_create_offscreen_gl g ctx width height = (None, [])
      \<and> drift_skia_surface_create_offscreen_vulkan g ctx width height = (None, []))
   \<and> (ctx = None \<or> width \<le> 0 \<or> height \<le> 0 \<or> vk_image = 0 \<longrightarrow>
      drift_skia_surface_create_vulkan g ctx width height vk_image vk_format = (None, []))"
  by (auto simp: drift_skia_surface_create_gl_def drift_skia_surface_create_offscreen_gl_def
        drift_skia_surface_create_offscreen_vulkan_def drift_skia_surface_create_vulkan_def
      split: option.splits)

theorem surface_create_rejects_bad_arguments_witness:
  "(640::int) \<le> 640 \<and> (- 480::int) \<le> 0
   \<and> drift_skia_surface_create_gl picky_gpu full_build (Some 1) 640 (- 480) = (None, [])
   \<and> drift_skia_surface_create_offscreen_gl picky_gpu (Some 1) 640 (- 480) = (None, [])
   \<and> drift_skia_surface_create_offscreen_vulkan picky_gpu (Some 1) 640 (- 480) = (None, [])
   \<and> drift_skia_surface_create_vulkan picky_gpu (Some 1) 640 (- 480) 9 37 = (None, [])
   \<and> drift_skia_surface_create_gl picky_gpu full_build None 640 480 = (None, [])
   \<and> drift_skia_surface_create_vulkan picky_gpu (Some 1) 640 480 0 37 = (None, [])
   \<and> drift_skia_surface_create_vulkan picky_gpu (Some 1) 640 480 9 37
       \<noteq> (None, [])"
proof -
  have ok: "drift_skia_surface_create_vulkan picky_gpu (Some 1) 640 480 9 37 \<noteq> (None, [])"
    by code_simp
  show ?thesis
    using ok
      surface_create_rejects_bad_arguments [of "Some 1" 640 "- 480" picky_gpu full_build 9 37]
      surface_create_rejects_bad_arguments [of None 640 480 picky_gpu full_build 9 37]
      surface_create_rejects_bad_arguments [of "Some 1" 640 480 picky_gpu full_build 0 37]
    by simp
qed

text \<open>
  C7: with a null context or a null surface neither variant makes any call; with both
  non-null the Vulkan variant calls \<^verbatim>\<open>flushAndSubmit\<close> on the surface passing
  \<^verbatim>\<open>GrSyncCpu::kYes\<close>, and the GL variant calls it passing no synchronisation argument.
\<close>

theorem surface_flush_contract:
  "drift_skia_surface_flush_vk (Some context) (Some sk_surface)
     = [Call_flushAndSubmit context sk_surface (Some GrSyncCpu_kYes)]
   \<and> drift_skia_surface_flush_gl (Some context) (Some sk_surface)
     = [Call_flushAndSubmit context sk_surface None]
   \<and> drift_skia_surface_flush_gl None surface = []
   \<and> drift_skia_surface_flush_gl ctx None = []
   \<and> drift_skia_surface_flush_vk None surface = []
   \<and> drift_skia_surface_flush_vk ctx None = []"
  by (simp add: drift_skia_surface_flush_gl_def drift_skia_surface_flush_vk_def
      split: option.splits)

theorem surface_flush_contract_witness:
  "drift_skia_surface_flush_vk (Some 1) (Some 42)
     = [Call_flushAndSubmit 1 42 (Some GrSyncCpu_kYes)]
   \<and> drift_skia_surface_flush_gl (Some 1) (Some 42) = [Call_flushAndSubmit 1 42 None]
   \<and> drift_skia_surface_flush_vk (Some 1) None = []
   \<and> drift_skia_surface_flush_gl None (Some 42) = []"
  using surface_flush_contract [of 1 42 "Some 42" "Some 1"] by simp



end
